theory Spec2Isabelle
  imports
    Complex_Main
    "HOL-Library.Word"
    "HOL-Library.Char_ord"
    "HOL-Library.List_Lexorder"
    "HOL-Library.Product_Lexorder"
    "HOL-Library.Multiset"
begin

unbundle bit_operations_syntax

section \<open>Python values shared by the modules\<close>

text \<open>
  \<^verbatim>\<open>d.get(key, default)\<close> on a dictionary whose entry may be absent: an absent key
  is \<open>None\<close>, a present one \<open>Some v\<close>.
\<close>

definition dict_get :: "'a option \<Rightarrow> 'a \<Rightarrow> 'a" where
  "dict_get entry dflt = (case entry of None \<Rightarrow> dflt | Some v \<Rightarrow> v)"

text \<open>
  Python 3 \<^verbatim>\<open>round(x)\<close> with one argument: the nearest integer, a tie going to the even
  neighbour. Signal scores are modelled as exact rationals. The source computes in double
  precision: its results can differ from the exact ones in the last digits, hence at
  rounding ties, and \<^verbatim>\<open>int(round(x))\<close> raises once \<open>x\<close> is NaN or a product has
  overflowed to infinity (scores near \<open>10\<^sup>306\<close>). NaN, the infinities and that rounding
  are outside this model.
\<close>

definition py_round :: "rat \<Rightarrow> int" where
  "py_round x =
     (let f = \<lfloor>x\<rfloor>; d = x - of_int f
      in if d < 1 / 2 then f
         else if 1 / 2 < d then f + 1
         else if even f then f else f + 1)"

section \<open>Signal sets and scoring results\<close>

text \<open>
  The \<^verbatim>\<open>signals\<close> dictionary read by both scoring modules. Every key is read with
  \<^verbatim>\<open>signals.get(key, default)\<close>, so every entry is optional.
\<close>

record signals =
  emotion_score :: "rat option"
  cta_score :: "rat option"
  tox_score :: "rat option"
  context_score :: "rat option"
  child_score :: "rat option"
  child_flag :: "bool option"
  toxicity_severity :: "string option"
  requires_immediate_action :: "bool option"
  toxicity_categories :: "string list option"
  child_severity :: "string option"
  child_exploitation_matches :: "int option"
  child_combination_matches :: "int option"

text \<open>
  The dictionary returned by \<^verbatim>\<open>calculate_improved_harm_score\<close>. The key
  \<^verbatim>\<open>child_severity\<close> is only present in the result of
  \<^verbatim>\<open>core/signals/improved_scoring.py\<close>.
\<close>

record scoring_result =
  risk_score :: int
  risk_label :: string
  breakdown :: "(string \<times> rat) list"
  child_escalation :: bool
  immediate_action_required :: bool
  r_toxicity_severity :: string
  r_child_severity :: "string option"

definition severe_categories :: "string list" where
  "severe_categories =
     [''Threats/Violence'', ''Hate Speech'', ''Sexual Harassment'',
      ''Extremist Content'', ''Slurs/Derogatory Language'']"

text \<open>\<^verbatim>\<open>sum(1 for cat in toxicity_categories if cat in severe_categories)\<close>\<close>

definition severe_count :: "string list \<Rightarrow> int" where
  "severe_count cats = int (length (filter (\<lambda>cat. cat \<in> set severe_categories) cats))"

text \<open>The label thresholds, identical in both scoring modules.\<close>

definition label_of :: "int \<Rightarrow> string" where
  "label_of score =
     (if score \<le> 49 then ''Low'' else if score \<le> 74 then ''Medium'' else ''High'')"

section \<open>core/scoring.py\<close>

text \<open>The weighted sum \<^verbatim>\<open>base_score\<close> of \<^verbatim>\<open>core/scoring.py\<close>.\<close>

definition scoring_base_score :: "signals \<Rightarrow> rat" where
  "scoring_base_score s =
     (let emotion = dict_get (emotion_score s) 0;
          cta = dict_get (cta_score s) 0;
          tox = dict_get (tox_score s) 0;
          context = dict_get (context_score s) 0;
          child = dict_get (child_score s) 0
      in 0.40 * tox + 0.25 * emotion + 0.15 * cta + 0.10 * context + 0.10 * child)"

text \<open>
  The value of the variable \<^verbatim>\<open>risk_score\<close> of \<^verbatim>\<open>core/scoring.py\<close> after the
  six overrides and before the final rounding.
\<close>

definition scoring_overridden_score :: "signals \<Rightarrow> rat" where
  "scoring_overridden_score s =
     (let emotion = dict_get (emotion_score s) 0;
          cta = dict_get (cta_score s) 0;
          tox = dict_get (tox_score s) 0;
          child = dict_get (child_score s) 0;
          child_flag = dict_get (child_flag s) False;
          toxicity_severity = dict_get (toxicity_severity s) ''low'';
          requires_immediate_action = dict_get (requires_immediate_action s) False;
          toxicity_categories = dict_get (toxicity_categories s) [];
          risk_score = scoring_base_score s * 100;
          risk_score = (if requires_immediate_action then max risk_score 85 else risk_score);
          risk_score = (if toxicity_severity = ''critical'' then max risk_score 90
                        else if toxicity_severity = ''high'' then max risk_score 75
                        else risk_score);
          risk_score = (if severe_count toxicity_categories \<ge> 2 then max risk_score 85
                        else if severe_count toxicity_categories \<ge> 1 then max risk_score 70
                        else risk_score);
          risk_score = (if child_flag \<and> child > 0.5 then max risk_score 85 else risk_score);
          risk_score = (if tox > 0.7 \<and> emotion > 0.6 then min (risk_score * 1.2) 100
                        else risk_score);
          risk_score = (if tox > 0.7 \<and> cta > 0.6 then min (risk_score * 1.25) 100
                        else risk_score)
      in risk_score)"

definition scoring_calculate_improved_harm_score :: "signals \<Rightarrow> scoring_result" where
  "scoring_calculate_improved_harm_score s =
     (let emotion = dict_get (emotion_score s) 0;
          cta = dict_get (cta_score s) 0;
          tox = dict_get (tox_score s) 0;
          context = dict_get (context_score s) 0;
          child = dict_get (child_score s) 0;
          child_flag = dict_get (child_flag s) False;
          toxicity_severity = dict_get (toxicity_severity s) ''low'';
          requires_immediate_action = dict_get (requires_immediate_action s) False;
          risk_score = min (py_round (scoring_overridden_score s)) 100
      in \<lparr> risk_score = risk_score,
           risk_label = label_of risk_score,
           breakdown = [(''Toxicity'', tox), (''Emotion'', emotion), (''Call-to-Action'', cta),
                        (''Context Sensitivity'', context), (''Child Safety'', child)],
           child_escalation = (child_flag \<and> child > 0.5),
           immediate_action_required = requires_immediate_action,
           r_toxicity_severity = toxicity_severity,
           r_child_severity = None \<rparr>)"

section \<open>core/signals/improved_scoring.py\<close>

text \<open>The weighted sum \<^verbatim>\<open>base_score\<close> of \<^verbatim>\<open>core/signals/improved_scoring.py\<close>.\<close>

definition improved_scoring_base_score :: "signals \<Rightarrow> rat" where
  "improved_scoring_base_score s =
     (let emotion = dict_get (emotion_score s) 0;
          cta = dict_get (cta_score s) 0;
          tox = dict_get (tox_score s) 0;
          context = dict_get (context_score s) 0;
          child = dict_get (child_score s) 0
      in 0.35 * child + 0.30 * tox + 0.20 * emotion + 0.10 * cta + 0.05 * context)"

text \<open>
  Overrides 1 to 4 of \<^verbatim>\<open>improved_scoring.py\<close>, one \<^verbatim>\<open>if/elif\<close> chain: the pair of
  the variables \<^verbatim>\<open>risk_score\<close> and \<^verbatim>\<open>requires_immediate_action\<close> after it.
\<close>

definition improved_scoring_child_overrides :: "signals \<Rightarrow> rat \<times> bool" where
  "improved_scoring_child_overrides s =
     (let child = dict_get (child_score s) 0;
          child_flag = dict_get (child_flag s) False;
          requires_immediate_action = dict_get (requires_immediate_action s) False;
          child_severity = dict_get (child_severity s) ''none'';
          child_exploitation_matches = dict_get (child_exploitation_matches s) 0;
          child_combination_matches = dict_get (child_combination_matches s) 0;
          risk_score = improved_scoring_base_score s * 100
      in if child_severity = ''critical'' \<or> child_combination_matches \<ge> 1
           then (max risk_score 95, True)
         else if child_severity = ''high'' \<or> child_exploitation_matches \<ge> 2
           then (max risk_score 85, True)
         else if child_flag \<and> child > 0.6
           then (max risk_score 80, requires_immediate_action)
         else if child_flag \<and> child_exploitation_matches \<ge> 1
           then (max risk_score 85, True)
         else (risk_score, requires_immediate_action))"

text \<open>
  The value of \<^verbatim>\<open>risk_score\<close> of \<^verbatim>\<open>improved_scoring.py\<close> after override 10 and
  before the final rounding.
\<close>

definition improved_scoring_overridden_score :: "signals \<Rightarrow> rat" where
  "improved_scoring_overridden_score s =
     (let emotion = dict_get (emotion_score s) 0;
          cta = dict_get (cta_score s) 0;
          tox = dict_get (tox_score s) 0;
          child_flag = dict_get (child_flag s) False;
          toxicity_severity = dict_get (toxicity_severity s) ''low'';
          toxicity_categories = dict_get (toxicity_categories s) [];
          (risk_score, requires_immediate_action) = improved_scoring_child_overrides s;
          risk_score = (if requires_immediate_action \<and> \<not> child_flag then max risk_score 85
                        else risk_score);
          risk_score = (if toxicity_severity = ''critical'' then max risk_score 90
                        else if toxicity_severity = ''high'' then max risk_score 75
                        else risk_score);
          risk_score = (if severe_count toxicity_categories \<ge> 2 then max risk_score 85
                        else if severe_count toxicity_categories \<ge> 1 then max risk_score 70
                        else risk_score);
          risk_score = (if tox > 0.7 \<and> emotion > 0.6 then min (risk_score * 1.2) 100
                        else risk_score);
          risk_score = (if tox > 0.7 \<and> cta > 0.6 then min (risk_score * 1.25) 100
                        else risk_score);
          risk_score = (if child_flag \<and> (tox > 0.6 \<or> emotion > 0.6)
                        then min (risk_score * 1.3) 100 else risk_score)
      in risk_score)"

definition improved_scoring_calculate_improved_harm_score :: "signals \<Rightarrow> scoring_result" where
  "improved_scoring_calculate_improved_harm_score s =
     (let emotion = dict_get (emotion_score s) 0;
          cta = dict_get (cta_score s) 0;
          tox = dict_get (tox_score s) 0;
          context = dict_get (context_score s) 0;
          child = dict_get (child_score s) 0;
          child_flag = dict_get (child_flag s) False;
          toxicity_severity = dict_get (toxicity_severity s) ''low'';
          child_severity = dict_get (child_severity s) ''none'';
          requires_immediate_action = snd (improved_scoring_child_overrides s);
          risk_score = min (py_round (improved_scoring_overridden_score s)) 100
      in \<lparr> risk_score = risk_score,
           risk_label = label_of risk_score,
           breakdown = [(''Child Safety'', child), (''Toxicity'', tox), (''Emotion'', emotion),
                        (''Call-to-Action'', cta), (''Context Sensitivity'', context)],
           child_escalation = (child_flag \<and> child > 0.5),
           immediate_action_required =
             (requires_immediate_action \<or> child_severity \<in> set [''critical'', ''high'']),
           r_toxicity_severity = toxicity_severity,
           r_child_severity = Some child_severity \<rparr>)"

text \<open>
  The wrapper \<^verbatim>\<open>calculate_harm_score\<close> of \<^verbatim>\<open>core/scoring.py\<close>, the function that
  \<^verbatim>\<open>api_server.py\<close> and \<^verbatim>\<open>app.py\<close> import.
\<close>

definition calculate_harm_score :: "signals \<Rightarrow> scoring_result" where
  "calculate_harm_score s = scoring_calculate_improved_harm_score s"

text \<open>A signal set with no key at all: every read takes its default.\<close>

definition no_signals :: signals where
  "no_signals =
     \<lparr> emotion_score = None, cta_score = None, tox_score = None, context_score = None,
       child_score = None, child_flag = None, toxicity_severity = None,
       requires_immediate_action = None, toxicity_categories = None, child_severity = None,
       child_exploitation_matches = None, child_combination_matches = None \<rparr>"

text \<open>
  Pointwise vocabulary for comparing two signal sets: every score of \<open>s\<close> (an absent
  one read as 0, as the code does) lies in \<open>[0, 1]\<close>; and \<open>s'\<close> is \<open>s\<close> with scores
  raised and every other input held fixed.
\<close>

definition scores_in_unit :: "signals \<Rightarrow> bool" where
  "scores_in_unit s =
     list_all (\<lambda>x. 0 \<le> x \<and> x \<le> 1)
       [dict_get (emotion_score s) 0, dict_get (cta_score s) 0, dict_get (tox_score s) 0,
        dict_get (context_score s) 0, dict_get (child_score s) 0]"

definition scores_raised :: "signals \<Rightarrow> signals \<Rightarrow> bool" where
  "scores_raised s s' =
     (dict_get (emotion_score s) 0 \<le> dict_get (emotion_score s') 0 \<and>
      dict_get (cta_score s) 0 \<le> dict_get (cta_score s') 0 \<and>
      dict_get (tox_score s) 0 \<le> dict_get (tox_score s') 0 \<and>
      dict_get (context_score s) 0 \<le> dict_get (context_score s') 0 \<and>
      dict_get (child_score s) 0 \<le> dict_get (child_score s') 0 \<and>
      child_flag s' = child_flag s \<and>
      toxicity_severity s' = toxicity_severity s \<and>
      requires_immediate_action s' = requires_immediate_action s \<and>
      toxicity_categories s' = toxicity_categories s \<and>
      child_severity s' = child_severity s \<and>
      child_exploitation_matches s' = child_exploitation_matches s \<and>
      child_combination_matches s' = child_combination_matches s)"

section \<open>core/actions.py\<close>

record action_result =
  ar_action :: string
  ar_queue :: string
  ar_priority :: string
  ar_rationale :: string
  ar_recommended_steps :: "string list"

text \<open>
  \<^verbatim>\<open>recommend_action(scoring_result, signals)\<close>. The second argument is never read. The
  variable \<^verbatim>\<open>risk_label\<close> is read from the scoring result and never used.
\<close>

definition recommend_action :: "scoring_result \<Rightarrow> signals \<Rightarrow> action_result" where
  "recommend_action scoring_result sigs =
     (if child_escalation scoring_result then
        \<lparr> ar_action = ''ESCALATE IMMEDIATELY'',
          ar_queue = ''Child Safety'',
          ar_priority = ''CRITICAL'',
          ar_rationale =
            ''Child safety concern requires immediate human review by specialized team.'',
          ar_recommended_steps =
            [''Route to Child Safety specialists'',
             ''Preserve all evidence'',
             ''Immediate review required (SLA: <15 min)'',
             ''Consider account investigation''] \<rparr>
      else if risk_score scoring_result \<le> 39 then
        \<lparr> ar_action = ''Monitor'',
          ar_queue = ''Automated Monitoring'',
          ar_priority = ''LOW'',
          ar_rationale = ''Low harm risk. Continue automated monitoring for patterns.'',
          ar_recommended_steps =
            [''Log for pattern analysis'',
             ''No immediate action required'',
             ''Track engagement metrics'',
             ''Re-evaluate if viral spread detected''] \<rparr>
      else if risk_score scoring_result \<le> 69 then
        \<lparr> ar_action = ''Add Warning / Reduce Reach'',
          ar_queue = ''Automated + Sampling Review'',
          ar_priority = ''MEDIUM'',
          ar_rationale =
            ''Moderate harm risk. Apply soft interventions to reduce potential spread.'',
          ar_recommended_steps =
            [''Append context/fact-check label if available'',
             ''Reduce algorithmic amplification'',
             ''Flag for random sampling review'',
             ''Monitor user reports''] \<rparr>
      else
        \<lparr> ar_action = ''Human Review Required'',
          ar_queue = ''Priority Review Queue'',
          ar_priority = ''HIGH'',
          ar_rationale = ''High harm risk. Requires human judgment before further action.'',
          ar_recommended_steps =
            [''Route to human moderators immediately'',
             ''Temporarily reduce reach pending review'',
             ''Review account history'',
             ''Prepare for potential removal/suspension''] \<rparr>)"

section \<open>core/database.py\<close>

text \<open>
  Python truthiness of an optional string argument (\<^verbatim>\<open>if queue_name:\<close>): \<^verbatim>\<open>None\<close> and
  the empty string are false.
\<close>

definition truthy :: "string option \<Rightarrow> bool" where
  "truthy x = (case x of None \<Rightarrow> False | Some v \<Rightarrow> v \<noteq> [])"

text \<open>
  A row of table \<^verbatim>\<open>content_analysis\<close>, with the columns the queue query reads
  (\<^verbatim>\<open>content_id\<close> for the join, and the three selected columns).
\<close>

record content_row =
  c_content_id :: string
  c_content_text :: string
  c_risk_score :: int
  c_reasons :: "string option"

text \<open>
  A row of table \<^verbatim>\<open>moderation_queue\<close>. Timestamps are the text that
  \<^verbatim>\<open>CURRENT_TIMESTAMP\<close> yields, compared bytewise as SQLite compares text.
\<close>

record queue_row =
  q_id :: nat
  q_content_id :: string
  q_queue_name :: string
  q_priority :: string
  q_assigned_to :: "string option"
  q_status :: string
  q_created_at :: string
  q_reviewed_at :: "string option"
  q_reviewer_decision :: "string option"
  q_reviewer_notes :: "string option"

text \<open>A row of table \<^verbatim>\<open>escalations\<close>.\<close>

record escalation_row =
  e_id :: nat
  e_content_id :: string
  e_escalated_by :: string
  e_escalation_reason :: string
  e_escalation_type :: string
  e_priority :: string
  e_status :: string
  e_assigned_to :: "string option"
  e_response_time_estimate :: "string option"
  e_created_at :: string
  e_updated_at :: string
  e_responded_at :: "string option"
  e_resolved_at :: "string option"
  e_resolution_notes :: "string option"

text \<open>
  The database: each table in insertion (rowid) order, and for the two
  \<^verbatim>\<open>AUTOINCREMENT\<close> tables the largest id handed out so far.
\<close>

record database =
  content_analysis :: "content_row list"
  moderation_queue :: "queue_row list"
  moderation_queue_seq :: nat
  escalations :: "escalation_row list"
  escalations_seq :: nat

definition empty_database :: database where
  "empty_database =
     \<lparr> content_analysis = [], moderation_queue = [], moderation_queue_seq = 0,
       escalations = [], escalations_seq = 0 \<rparr>"

text \<open>
  \<^verbatim>\<open>add_to_queue\<close>: one \<^verbatim>\<open>INSERT\<close> of the three given columns; \<^verbatim>\<open>id\<close>,
  \<^verbatim>\<open>status\<close> and \<^verbatim>\<open>created_at\<close> take their column defaults and the other columns are
  NULL. The table has no uniqueness constraint besides the primary key, and SQLite does
  not enforce the foreign key unless asked to. The function returns nothing. \<open>now\<close> is
  the reading of \<^verbatim>\<open>CURRENT_TIMESTAMP\<close>.
\<close>

definition add_to_queue :: "database \<Rightarrow> string \<Rightarrow> string \<Rightarrow> string \<Rightarrow> string \<Rightarrow> database" where
  "add_to_queue db now content_id queue_name priority =
     db \<lparr> moderation_queue :=
            moderation_queue db @
              [\<lparr> q_id = moderation_queue_seq db + 1,
                 q_content_id = content_id,
                 q_queue_name = queue_name,
                 q_priority = priority,
                 q_assigned_to = None,
                 q_status = ''pending'',
                 q_created_at = now,
                 q_reviewed_at = None,
                 q_reviewer_decision = None,
                 q_reviewer_notes = None \<rparr>],
          moderation_queue_seq := moderation_queue_seq db + 1 \<rparr>"

text \<open>The \<^verbatim>\<open>CASE q.priority ... END\<close> expression of the \<^verbatim>\<open>ORDER BY\<close> clause.\<close>

definition priority_rank :: "string \<Rightarrow> nat" where
  "priority_rank p =
     (if p = ''CRITICAL'' then 1 else if p = ''HIGH'' then 2 else if p = ''MEDIUM'' then 3 else 4)"

text \<open>The sort key of the \<^verbatim>\<open>ORDER BY\<close> clause: the rank, then \<^verbatim>\<open>q.created_at ASC\<close>.\<close>

definition order_key :: "queue_row \<times> content_row \<Rightarrow> nat \<times> string" where
  "order_key qc = (priority_rank (q_priority (fst qc)), q_created_at (fst qc))"

text \<open>
  \<^verbatim>\<open>get_queue_items\<close>: the inner join of the queue with \<^verbatim>\<open>content_analysis\<close> on
  \<^verbatim>\<open>content_id\<close>, filtered by status and, when \<^verbatim>\<open>queue_name\<close> is truthy, by queue
  name, then ordered. A result row is the queue row together with the joined analysis
  row, whose columns \<^verbatim>\<open>content_text\<close>, \<^verbatim>\<open>risk_score\<close> and \<^verbatim>\<open>reasons\<close> are selected.
  SQL leaves the order of rows with equal keys open; the model keeps them in table order.
\<close>

definition get_queue_items ::
    "database \<Rightarrow> string option \<Rightarrow> string \<Rightarrow> (queue_row \<times> content_row) list" where
  "get_queue_items db queue_name status =
     (let joined = concat (map (\<lambda>q. map (\<lambda>c. (q, c))
                                 (filter (\<lambda>c. q_content_id q = c_content_id c)
                                    (content_analysis db)))
                            (moderation_queue db));
          rows = (if truthy queue_name
                  then filter (\<lambda>(q, c). q_queue_name q = the queue_name \<and> q_status q = status)
                         joined
                  else filter (\<lambda>(q, c). q_status q = status) joined)
      in sort_key order_key rows)"

text \<open>SQL \<^verbatim>\<open>COALESCE(?, column)\<close>: the parameter unless it is NULL.\<close>

definition coalesce :: "'a option \<Rightarrow> 'a option \<Rightarrow> 'a option" where
  "coalesce param col = (case param of None \<Rightarrow> col | Some v \<Rightarrow> Some v)"

text \<open>
  \<^verbatim>\<open>update_queue_status\<close>: one unconditional \<^verbatim>\<open>UPDATE ... WHERE id = ?\<close>.
\<close>

definition update_queue_status ::
    "database \<Rightarrow> string \<Rightarrow> nat \<Rightarrow> string \<Rightarrow> string option \<Rightarrow> string option \<Rightarrow> string option
       \<Rightarrow> database" where
  "update_queue_status db now queue_id status reviewer decision notes =
     db \<lparr> moderation_queue :=
            map (\<lambda>q. if q_id q = queue_id
                      then q \<lparr> q_status := status,
                               q_reviewed_at := Some now,
                               q_assigned_to := coalesce reviewer (q_assigned_to q),
                               q_reviewer_decision := coalesce decision (q_reviewer_decision q),
                               q_reviewer_notes := coalesce notes (q_reviewer_notes q) \<rparr>
                      else q)
              (moderation_queue db) \<rparr>"

text \<open>
  The endpoint \<^verbatim>\<open>review_queue_item\<close> of \<^verbatim>\<open>api_server.py\<close>: it calls
  \<^verbatim>\<open>update_queue_status\<close> with status \<^verbatim>\<open>'reviewed'\<close> and answers with a success
  record. Nothing in its body raises, so no failure branch exists.
\<close>

record review_response =
  rr_status :: string
  rr_queue_id :: nat
  rr_decision :: string
  rr_reviewer :: string

definition review_queue_item ::
    "database \<Rightarrow> string \<Rightarrow> nat \<Rightarrow> string \<Rightarrow> string \<Rightarrow> string option
       \<Rightarrow> database \<times> review_response" where
  "review_queue_item db now queue_id decision reviewer notes =
     (update_queue_status db now queue_id ''reviewed'' (Some reviewer) (Some decision) notes,
      \<lparr> rr_status = ''success'', rr_queue_id = queue_id,
        rr_decision = decision, rr_reviewer = reviewer \<rparr>)"

text \<open>
  \<^verbatim>\<open>update_escalation_status\<close>: the \<^verbatim>\<open>SET\<close> list is assembled field by field, in the
  order of the source, and applied to the row with the given id.
\<close>

definition escalation_update ::
    "string \<Rightarrow> string \<Rightarrow> string option \<Rightarrow> string option \<Rightarrow> escalation_row \<Rightarrow> escalation_row" where
  "escalation_update now status assigned_to resolution_notes e =
     (let e = e \<lparr> e_status := status, e_updated_at := now \<rparr>;
          e = (if truthy assigned_to then e \<lparr> e_assigned_to := assigned_to \<rparr> else e);
          e = (if status = ''responded'' \<and> resolution_notes = None
               then e \<lparr> e_responded_at := Some now \<rparr> else e);
          e = (if status = ''resolved''
               then (let e = e \<lparr> e_resolved_at := Some now \<rparr>
                     in if truthy resolution_notes
                        then e \<lparr> e_resolution_notes := resolution_notes \<rparr> else e)
               else e)
      in e)"

definition update_escalation_status ::
    "database \<Rightarrow> string \<Rightarrow> nat \<Rightarrow> string \<Rightarrow> string option \<Rightarrow> string option \<Rightarrow> database" where
  "update_escalation_status db now escalation_id status assigned_to resolution_notes =
     db \<lparr> escalations :=
            map (\<lambda>e. if e_id e = escalation_id
                      then escalation_update now status assigned_to resolution_notes e
                      else e)
              (escalations db) \<rparr>"

section \<open>Vocabulary of the specification used to state the claims\<close>

text \<open>
  The weighted sum as the specification words it, scaled by 100: 0.35 child-safety,
  0.30 toxicity, 0.20 emotion, 0.10 call-to-action, 0.05 context.
\<close>

definition spec_base_score :: "signals \<Rightarrow> rat" where
  "spec_base_score s =
     100 * (0.35 * dict_get (child_score s) 0 + 0.30 * dict_get (tox_score s) 0
            + 0.20 * dict_get (emotion_score s) 0 + 0.10 * dict_get (cta_score s) 0
            + 0.05 * dict_get (context_score s) 0)"






text \<open>The decision table as the specification words it: thresholds 49 and 74.\<close>

definition spec_decide :: "scoring_result \<Rightarrow> string \<times> string \<times> string" where
  "spec_decide r =
     (if child_escalation r then (''ESCALATE IMMEDIATELY'', ''CRITICAL'', ''Child Safety'')
      else if risk_score r \<le> 49 then (''Monitor'', ''LOW'', ''Automated Monitoring'')
      else if risk_score r \<le> 74
        then (''Add Warning / Reduce Reach'', ''MEDIUM'', ''Automated + Sampling Review'')
      else (''Human Review Required'', ''HIGH'', ''Priority Review Queue''))"

text \<open>A scoring result that carries nothing but an escalation flag and a score.\<close>

definition probe :: "bool \<Rightarrow> int \<Rightarrow> scoring_result" where
  "probe flag score =
     \<lparr> risk_score = score, risk_label = [], breakdown = [], child_escalation = flag,
       immediate_action_required = False, r_toxicity_severity = [], r_child_severity = None \<rparr>"

text \<open>The rows of the queue table that belong to one content item in one queue.\<close>

definition entries_for :: "database \<Rightarrow> string \<Rightarrow> string \<Rightarrow> queue_row list" where
  "entries_for db content_id queue_name =
     filter (\<lambda>q. q_content_id q = content_id \<and> q_queue_name q = queue_name)
       (moderation_queue db)"

text \<open>A signal set with toxicity 0.8 and emotion 0.7, every score within \<open>[0, 1]\<close>.\<close>

definition in_range_signals :: signals where
  "in_range_signals = no_signals\<lparr>tox_score := Some 0.8, emotion_score := Some 0.7\<rparr>"

section \<open>Sample database states\<close>

text \<open>A pending queue entry with id 1, as \<^verbatim>\<open>add_to_queue\<close> leaves it.\<close>

definition one_pending :: database where
  "one_pending =
     add_to_queue empty_database ''2026-02-07 10:00:00'' ''c1'' ''Priority Review Queue'' ''HIGH''"

text \<open>
  Three analysed content items queued in one queue: a MEDIUM entry first, then a
  CRITICAL one, then a HIGH one.
\<close>

definition three_queued :: database where
  "three_queued =
     add_to_queue
       (add_to_queue
          (add_to_queue
             (empty_database \<lparr> content_analysis :=
                [\<lparr> c_content_id = ''c1'', c_content_text = ''t1'', c_risk_score = 60,
                   c_reasons = None \<rparr>,
                 \<lparr> c_content_id = ''c2'', c_content_text = ''t2'', c_risk_score = 96,
                   c_reasons = None \<rparr>,
                 \<lparr> c_content_id = ''c3'', c_content_text = ''t3'', c_risk_score = 80,
                   c_reasons = None \<rparr>] \<rparr>)
             ''2026-02-07 10:00:00'' ''c1'' ''Q'' ''MEDIUM'')
          ''2026-02-07 10:00:01'' ''c2'' ''Q'' ''CRITICAL'')
       ''2026-02-07 10:00:02'' ''c3'' ''Q'' ''HIGH''"

text \<open>One escalation, pending, never responded to.\<close>

definition one_escalation :: database where
  "one_escalation =
     empty_database \<lparr> escalations :=
       [\<lparr> e_id = 1, e_content_id = ''c1'', e_escalated_by = ''mod1'',
          e_escalation_reason = ''unclear'', e_escalation_type = ''policy'',
          e_priority = ''HIGH'', e_status = ''pending'', e_assigned_to = None,
          e_response_time_estimate = Some ''2-4 hours'',
          e_created_at = ''2026-02-07 10:00:00'', e_updated_at = ''2026-02-07 10:00:00'',
          e_responded_at = None, e_resolved_at = None, e_resolution_notes = None \<rparr>],
       escalations_seq := 1 \<rparr>"

section \<open>JSON values and json.dumps\<close>

text \<open>
  The values \<^verbatim>\<open>json.dumps\<close> is applied to. A float is carried as the text its
  \<^verbatim>\<open>repr\<close> prints; a dictionary is its list of items, with pairwise distinct keys.
\<close>

datatype json =
    JNull
  | JBool bool
  | JInt int
  | JFloat string
  | JString string
  | JArray "json list"
  | JObject "(string \<times> json) list"

definition digit_char :: "nat \<Rightarrow> char" where
  "digit_char d = char_of (48 + d)"

function nat_repr :: "nat \<Rightarrow> string" where
  "nat_repr n = (if n < 10 then [digit_char n] else nat_repr (n div 10) @ [digit_char (n mod 10)])"
  by pat_completeness auto
termination
  by (relation "measure id") auto

definition int_repr :: "int \<Rightarrow> string" where
  "int_repr i = (if i < 0 then CHR ''-'' # nat_repr (nat (- i)) else nat_repr (nat i))"

definition hex_char :: "nat \<Rightarrow> char" where
  "hex_char d = (if d < 10 then char_of (48 + d) else char_of (87 + d))"

text \<open>
  The escape of one character under \<^verbatim>\<open>ensure_ascii=True\<close>: the quote and the backslash,
  the five short escapes, and \<^verbatim>\<open>\u00xx\<close> for every other character outside the range
  from space to tilde. A character of the model is one code point below 256.
\<close>

definition json_escape_char :: "char \<Rightarrow> string" where
  "json_escape_char c =
     (let n = (of_char c :: nat) in
      if c = CHR ''\"'' then [CHR 0x5C, CHR ''\"'']
      else if n = 0x5C then [CHR 0x5C, CHR 0x5C]
      else if n = 8 then [CHR 0x5C, CHR ''b'']
      else if n = 12 then [CHR 0x5C, CHR ''f'']
      else if n = 10 then [CHR 0x5C, CHR ''n'']
      else if n = 13 then [CHR 0x5C, CHR ''r'']
      else if n = 9 then [CHR 0x5C, CHR ''t'']
      else if n < 32 \<or> 126 < n
        then [CHR 0x5C, CHR ''u'', CHR ''0'', CHR ''0'', hex_char (n div 16), hex_char (n mod 16)]
      else [c])"

definition json_quote :: "string \<Rightarrow> string" where
  "json_quote s = [CHR ''\"''] @ concat (map json_escape_char s) @ [CHR ''\"'']"

text \<open>\<^verbatim>\<open>sep.join(parts)\<close>\<close>

fun join :: "string \<Rightarrow> string list \<Rightarrow> string" where
  "join sep [] = []"
| "join sep [x] = x"
| "join sep (x # y # ys) = x @ sep @ join sep (y # ys)"

text \<open>
  \<^verbatim>\<open>json.dumps(data, sort_keys=True)\<close> with the default separators: the items of every
  dictionary are written in the order of their keys.
\<close>

fun json_dumps :: "json \<Rightarrow> string" where
  "json_dumps JNull = ''null''"
| "json_dumps (JBool b) = (if b then ''true'' else ''false'')"
| "json_dumps (JInt i) = int_repr i"
| "json_dumps (JFloat r) = r"
| "json_dumps (JString s) = json_quote s"
| "json_dumps (JArray xs) = ''['' @ join '', '' (map json_dumps xs) @ '']''"
| "json_dumps (JObject kvs) =
     ''{'' @ join '', ''
              (map (\<lambda>(k, text). json_quote k @ '': '' @ text)
                 (sort_key fst (map (\<lambda>(k, v). (k, json_dumps v)) kvs)))
         @ ''}''"

text \<open>Python truthiness of a value read back from JSON (\<^verbatim>\<open>if not ipfs_data\<close>).\<close>

fun json_truthy :: "json \<Rightarrow> bool" where
  "json_truthy JNull = False"
| "json_truthy (JBool b) = b"
| "json_truthy (JInt i) = (i \<noteq> 0)"
| "json_truthy (JFloat r) = (r \<noteq> ''0.0'' \<and> r \<noteq> ''-0.0'')"
| "json_truthy (JString s) = (s \<noteq> [])"
| "json_truthy (JArray xs) = (xs \<noteq> [])"
| "json_truthy (JObject kvs) = (kvs \<noteq> [])"

section \<open>core/blockchain.py\<close>

text \<open>
  \<^verbatim>\<open>hash_data\<close>, the same in both classes. The parameter \<open>sha256_hex\<close> stands for
  \<^verbatim>\<open>hashlib.sha256(s.encode()).hexdigest()\<close>, a function of the Python library.
\<close>

definition hash_data :: "(string \<Rightarrow> string) \<Rightarrow> json \<Rightarrow> string" where
  "hash_data sha256_hex data = sha256_hex (json_dumps data)"

subsection \<open>LocalBlockchainSimulator\<close>

text \<open>
  A block of the local chain. The source's dictionary has the keys \<^verbatim>\<open>block_number\<close>,
  \<^verbatim>\<open>timestamp\<close>, \<^verbatim>\<open>content_id\<close>, \<^verbatim>\<open>data\<close> (with \<^verbatim>\<open>content_text\<close> and
  \<^verbatim>\<open>analysis\<close>), \<^verbatim>\<open>previous_hash\<close> and, added last, \<^verbatim>\<open>hash\<close>.
\<close>

record block =
  block_number :: nat
  b_timestamp :: string
  b_content_id :: string
  b_content_text :: string
  b_analysis :: json
  previous_hash :: string
  b_hash :: string

text \<open>The items of the block dictionary at the moment it is hashed, in source order.\<close>

definition block_items :: "block \<Rightarrow> (string \<times> json) list" where
  "block_items b =
     [(''block_number'', JInt (int (block_number b))),
      (''timestamp'', JString (b_timestamp b)),
      (''content_id'', JString (b_content_id b)),
      (''data'', JObject [(''content_text'', JString (b_content_text b)),
                          (''analysis'', b_analysis b)]),
      (''previous_hash'', JString (previous_hash b))]"



text \<open>\<^verbatim>\<open>LocalBlockchainSimulator.get_audit_record\<close>: the first block of that content id.\<close>

definition sim_get_audit_record :: "block list \<Rightarrow> string \<Rightarrow> block option" where
  "sim_get_audit_record chain content_id = find (\<lambda>b. b_content_id b = content_id) chain"



subsection \<open>BlockchainAuditManager\<close>

text \<open>
  What the contract holds for a content id, as its ABI shows it: the arguments of
  \<^verbatim>\<open>logAnalysis\<close>, among them the data hash, and the time and sender of the transaction.
\<close>

record chain_entry =
  ce_ipfs_hash :: string
  ce_risk_score :: nat
  ce_action :: string
  ce_data_hash :: string
  ce_timestamp :: nat
  ce_auditor :: string

text \<open>The dictionary \<^verbatim>\<open>get_audit_record\<close> builds from the five outputs of \<^verbatim>\<open>getAuditRecord\<close>.\<close>

record audit_record =
  rec_ipfs_hash :: string
  rec_risk_score :: nat
  rec_action :: string
  rec_timestamp :: nat
  rec_auditor :: string

text \<open>
  The manager with the two services it talks to: the contract (\<open>None\<close> when none is
  loaded), where a content id without an entry makes the call fail, and the IPFS gateway,
  where \<open>None\<close> is any failed retrieval.
\<close>

record manager =
  contract :: "(string \<rightharpoonup> chain_entry) option"
  ipfs :: "string \<rightharpoonup> json"

definition get_audit_record :: "manager \<Rightarrow> string \<Rightarrow> audit_record option" where
  "get_audit_record m content_id =
     (case contract m of
        None \<Rightarrow> None
      | Some entries \<Rightarrow>
          (case entries content_id of
             None \<Rightarrow> None
           | Some e \<Rightarrow>
               Some \<lparr> rec_ipfs_hash = ce_ipfs_hash e, rec_risk_score = ce_risk_score e,
                      rec_action = ce_action e, rec_timestamp = ce_timestamp e,
                      rec_auditor = ce_auditor e \<rparr>))"

definition retrieve_from_ipfs :: "manager \<Rightarrow> string \<Rightarrow> json option" where
  "retrieve_from_ipfs m ipfs_hash = ipfs m ipfs_hash"

text \<open>
  \<^verbatim>\<open>BlockchainAuditManager.verify_audit_integrity\<close>. The hash of the retrieved data is
  computed and printed; it takes no part in the result.
\<close>

definition verify_audit_integrity :: "(string \<Rightarrow> string) \<Rightarrow> manager \<Rightarrow> string \<Rightarrow> bool" where
  "verify_audit_integrity sha256_hex m content_id =
     (case get_audit_record m content_id of
        None \<Rightarrow> False
      | Some record \<Rightarrow>
          (case retrieve_from_ipfs m (rec_ipfs_hash record) of
             None \<Rightarrow> False
           | Some ipfs_data \<Rightarrow>
               if \<not> json_truthy ipfs_data then False
               else (let computed_hash = hash_data sha256_hex ipfs_data in True)))"

section \<open>core/action_executor.py\<close>

text \<open>
  The attribute \<^verbatim>\<open>self.blockchain\<close> of the executor: nothing, the manager, or the local
  simulator it falls back to. The simulator class has no method
  \<^verbatim>\<open>verify_audit_integrity\<close>, so the \<^verbatim>\<open>hasattr\<close> test fails for it.
\<close>

datatype ledger = NoLedger | Manager manager | Simulator "block list"

definition executor_verify_audit_integrity ::
    "(string \<Rightarrow> string) \<Rightarrow> ledger \<Rightarrow> string \<Rightarrow> bool" where
  "executor_verify_audit_integrity sha256_hex blockchain content_id =
     (case blockchain of
        NoLedger \<Rightarrow> False
      | Manager m \<Rightarrow> verify_audit_integrity sha256_hex m content_id
      | Simulator chain \<Rightarrow> False)"

section \<open>Sample ledgers\<close>



text \<open>
  A manager whose contract holds one entry, for content \<^verbatim>\<open>c1\<close>, with the given data
  hash, and whose IPFS gateway returns the given payload for that entry.
\<close>

definition manager_with :: "string \<Rightarrow> json \<Rightarrow> manager" where
  "manager_with data_hash payload =
     \<lparr> contract =
         Some [''c1'' \<mapsto> \<lparr> ce_ipfs_hash = ''Qm1'', ce_risk_score = 85,
                          ce_action = ''Human Review Required'', ce_data_hash = data_hash,
                          ce_timestamp = 1770458400, ce_auditor = ''0xA1'' \<rparr>],
       ipfs = [''Qm1'' \<mapsto> payload] \<rparr>"

definition sample_payload :: json where
  "sample_payload = JObject [(''content_id'', JString ''c1''), (''risk_score'', JInt 0)]"

text \<open>
  The first condition of the specification's \<^verbatim>\<open>verify\<close>: the digest recomputed over the
  stored payload of the content id reproduces the stored hash.
\<close>

definition digest_matches :: "(string \<Rightarrow> string) \<Rightarrow> ledger \<Rightarrow> string \<Rightarrow> bool" where
  "digest_matches sha256_hex blockchain content_id =
     (case blockchain of
        NoLedger \<Rightarrow> False
      | Manager m \<Rightarrow>
          (case contract m of
             None \<Rightarrow> False
           | Some entries \<Rightarrow>
               (case entries content_id of
                  None \<Rightarrow> False
                | Some e \<Rightarrow>
                    (case retrieve_from_ipfs m (ce_ipfs_hash e) of
                       None \<Rightarrow> False
                     | Some d \<Rightarrow> hash_data sha256_hex d = ce_data_hash e)))
      | Simulator chain \<Rightarrow>
          (case sim_get_audit_record chain content_id of
             None \<Rightarrow> False
           | Some b \<Rightarrow> b_hash b = hash_data sha256_hex (JObject (block_items b))))"

section \<open>Rounding and the override steps\<close>

lemma py_round_mono: "x \<le> y \<Longrightarrow> py_round x \<le> py_round y"
proof -
  assume xy: "x \<le> y"
  have fl: "\<lfloor>x\<rfloor> \<le> \<lfloor>y\<rfloor>" using xy by (rule floor_mono)
  have lo: "\<lfloor>y\<rfloor> \<le> py_round y" by (simp add: py_round_def Let_def)
  have hi: "py_round x \<le> \<lfloor>x\<rfloor> + 1" by (simp add: py_round_def Let_def)
  show ?thesis
  proof (cases "\<lfloor>x\<rfloor> < \<lfloor>y\<rfloor>")
    case True
    then show ?thesis using lo hi by linarith
  next
    case False
    then have eq: "\<lfloor>x\<rfloor> = \<lfloor>y\<rfloor>" using fl by simp
    then have "x - of_int \<lfloor>x\<rfloor> \<le> y - of_int \<lfloor>y\<rfloor>" using xy by simp
    then show ?thesis using eq by (auto simp: py_round_def Let_def)
  qed
qed

lemma py_round_of_int: "py_round (of_int n) = n"
  by (simp add: py_round_def Let_def)


lemma floor_step:
  fixes r r' k :: rat
  shows "r \<le> r' \<Longrightarrow> (c \<longrightarrow> c') \<Longrightarrow>
     (if c then max r k else r) \<le> (if c' then max r' k else r')"
  by (auto simp: max_def)

lemma floor_range:
  fixes r k :: rat
  shows "0 \<le> r \<Longrightarrow> r \<le> 100 \<Longrightarrow> k \<le> 100 \<Longrightarrow>
     0 \<le> (if c then max r k else r) \<and> (if c then max r k else r) \<le> 100"
  by (auto simp: max_def)

lemma mult_step:
  fixes r r' f :: rat
  assumes "0 \<le> r" "r \<le> r'" "r' \<le> 100" "1 \<le> f" "c \<longrightarrow> c'"
  shows "(if c then min (r * f) 100 else r) \<le> (if c' then min (r' * f) 100 else r')"
proof -
  have m: "r * f \<le> r' * f" using assms by (intro mult_right_mono) auto
  have b: "r' \<le> r' * f" using assms by (simp add: mult_le_cancel_left1)
  have 1: "min (r * f) 100 \<le> min (r' * f) 100" using m by (simp add: min.coboundedI1)
  have 2: "r \<le> min (r' * f) 100" using assms b by simp
  show ?thesis using 1 2 assms by (simp split: if_splits)
qed

lemma mult_range:
  fixes r f :: rat
  assumes "0 \<le> r" "r \<le> 100" "1 \<le> f"
  shows "0 \<le> (if c then min (r * f) 100 else r) \<and> (if c then min (r * f) 100 else r) \<le> 100"
  using assms by (simp add: min_def)

section \<open>Monotonicity of core/scoring.py\<close>

lemma scoring_base_range:
  assumes "scores_in_unit s"
  shows "0 \<le> scoring_base_score s * 100 \<and> scoring_base_score s * 100 \<le> 100"
  using assms by (simp add: scores_in_unit_def scoring_base_score_def Let_def)

lemma improved_scoring_base_range:
  assumes "scores_in_unit s"
  shows "0 \<le> improved_scoring_base_score s * 100 \<and> improved_scoring_base_score s * 100 \<le> 100"
  using assms by (simp add: scores_in_unit_def improved_scoring_base_score_def Let_def)

lemma scoring_base_mono:
  assumes "scores_raised s s'"
  shows "scoring_base_score s * 100 \<le> scoring_base_score s' * 100"
  using assms by (simp add: scores_raised_def scoring_base_score_def Let_def)

lemma scoring_overridden_mono:
  assumes u: "scores_in_unit s" and u': "scores_in_unit s'" and up: "scores_raised s s'"
  shows "scoring_overridden_score s \<le> scoring_overridden_score s'"
proof -
  define flag where "flag = dict_get (child_flag s) False"
  define sev where "sev = dict_get (toxicity_severity s) ''low''"
  define req where "req = dict_get (requires_immediate_action s) False"
  define cnt where "cnt = severe_count (dict_get (toxicity_categories s) [])"
  define F :: "rat \<Rightarrow> rat" where
    "F = (\<lambda>r0. let r1 = (if req then max r0 85 else r0);
                   r2 = (if sev = ''critical'' then max r1 90
                         else if sev = ''high'' then max r1 75 else r1)
               in (if cnt \<ge> 2 then max r2 85 else if cnt \<ge> 1 then max r2 70 else r2))"
  define G :: "signals \<Rightarrow> rat \<Rightarrow> rat" where
    "G = (\<lambda>t r3. let r4 = (if flag \<and> dict_get (child_score t) 0 > 0.5 then max r3 85 else r3);
                     r5 = (if dict_get (tox_score t) 0 > 0.7 \<and> dict_get (emotion_score t) 0 > 0.6
                           then min (r4 * 1.2) 100 else r4)
                 in (if dict_get (tox_score t) 0 > 0.7 \<and> dict_get (cta_score t) 0 > 0.6
                     then min (r5 * 1.25) 100 else r5))"
  have same: "dict_get (child_flag s') False = flag"
    "dict_get (toxicity_severity s') ''low'' = sev"
    "dict_get (requires_immediate_action s') False = req"
    "severe_count (dict_get (toxicity_categories s') []) = cnt"
    using up by (simp_all add: scores_raised_def flag_def sev_def req_def cnt_def)
  have e: "scoring_overridden_score s = G s (F (scoring_base_score s * 100))"
    unfolding scoring_overridden_score_def G_def F_def Let_def flag_def sev_def req_def cnt_def
    by (rule refl)
  have e': "scoring_overridden_score s' = G s' (F (scoring_base_score s' * 100))"
    unfolding scoring_overridden_score_def G_def F_def Let_def same [symmetric]
    by (rule refl)
  have Fmono: "F a \<le> F b" if "a \<le> b" for a b
    using that by (auto simp: F_def Let_def max_def)
  have Frange: "0 \<le> F a \<and> F a \<le> 100" if "0 \<le> a" "a \<le> 100" for a
    using that by (auto simp: F_def Let_def max_def)
  have Gmono: "G s a \<le> G s' b" if ab: "a \<le> b" and a0: "0 \<le> a" and b1: "b \<le> 100" for a b
  proof -
    let ?c4 = "flag \<and> dict_get (child_score s) 0 > 0.5"
    let ?c4' = "flag \<and> dict_get (child_score s') 0 > 0.5"
    let ?c5 = "dict_get (tox_score s) 0 > 0.7 \<and> dict_get (emotion_score s) 0 > 0.6"
    let ?c5' = "dict_get (tox_score s') 0 > 0.7 \<and> dict_get (emotion_score s') 0 > 0.6"
    let ?c6 = "dict_get (tox_score s) 0 > 0.7 \<and> dict_get (cta_score s) 0 > 0.6"
    let ?c6' = "dict_get (tox_score s') 0 > 0.7 \<and> dict_get (cta_score s') 0 > 0.6"
    let ?r4 = "if ?c4 then max a 85 else a"
    let ?r4' = "if ?c4' then max b 85 else b"
    let ?r5 = "if ?c5 then min (?r4 * 1.2) 100 else ?r4"
    let ?r5' = "if ?c5' then min (?r4' * 1.2) 100 else ?r4'"
    have i4: "?c4 \<longrightarrow> ?c4'" and i5: "?c5 \<longrightarrow> ?c5'" and i6: "?c6 \<longrightarrow> ?c6'"
      using up by (auto simp: scores_raised_def)
    have a1: "a \<le> 100" and b0: "0 \<le> b" using a0 ab b1 by auto
    have m4: "?r4 \<le> ?r4'" using ab i4 by (rule floor_step)
    have g4: "0 \<le> ?r4 \<and> ?r4 \<le> 100" by (rule floor_range [OF a0 a1]) simp
    have g4': "0 \<le> ?r4' \<and> ?r4' \<le> 100" by (rule floor_range [OF b0 b1]) simp
    have m5: "?r5 \<le> ?r5'"
      by (rule mult_step [OF g4[THEN conjunct1] m4 g4'[THEN conjunct2] _ i5]) simp
    have g5: "0 \<le> ?r5 \<and> ?r5 \<le> 100"
      by (rule mult_range [OF g4[THEN conjunct1] g4[THEN conjunct2]]) simp
    have g5': "0 \<le> ?r5' \<and> ?r5' \<le> 100"
      by (rule mult_range [OF g4'[THEN conjunct1] g4'[THEN conjunct2]]) simp
    have m6: "(if ?c6 then min (?r5 * 1.25) 100 else ?r5)
                \<le> (if ?c6' then min (?r5' * 1.25) 100 else ?r5')"
      by (rule mult_step [OF g5[THEN conjunct1] m5 g5'[THEN conjunct2] _ i6]) simp
    show ?thesis unfolding G_def Let_def using m6 .
  qed
  have "G s (F (scoring_base_score s * 100)) \<le> G s' (F (scoring_base_score s' * 100))"
    using Fmono [OF scoring_base_mono [OF up]] Frange scoring_base_range [OF u]
      scoring_base_range [OF u']
    by (intro Gmono) auto
  then show ?thesis using e e' by simp
qed

text \<open>
  In \<^verbatim>\<open>core/scoring.py\<close>, the module the API server imports, raising scores within
  \<open>[0, 1]\<close> with every other input fixed never lowers the risk score.
\<close>

lemma scoring_monotone:
  assumes "scores_in_unit s" "scores_in_unit s'" "scores_raised s s'"
  shows "risk_score (calculate_harm_score s) \<le> risk_score (calculate_harm_score s')"
proof -
  have "py_round (scoring_overridden_score s) \<le> py_round (scoring_overridden_score s')"
    using assms by (intro py_round_mono scoring_overridden_mono)
  then show ?thesis
    by (simp add: calculate_harm_score_def scoring_calculate_improved_harm_score_def Let_def)
qed

section \<open>The decision table\<close>

text \<open>
  Claim C3, as stated, fails. The specification gives the decision table the bands of the
  risk label (up to 49, 50 to 74, from 75). On the result of scoring toxicity 1 and
  emotion 0.2, which is score 45 with label Low, the specified table answers Monitor,
  LOW, Automated Monitoring; \<^verbatim>\<open>recommend_action\<close> answers Add Warning / Reduce Reach,
  MEDIUM, Automated + Sampling Review.
\<close>

theorem C3_counterexample:
  "risk_score (calculate_harm_score (no_signals\<lparr>tox_score := Some 1, emotion_score := Some 0.2\<rparr>)) = 45
   \<and> risk_label (calculate_harm_score (no_signals\<lparr>tox_score := Some 1, emotion_score := Some 0.2\<rparr>)) = ''Low''
   \<and> recommend_action (calculate_harm_score (no_signals\<lparr>tox_score := Some 1, emotion_score := Some 0.2\<rparr>)) no_signals
      = \<lparr> ar_action = ''Add Warning / Reduce Reach'',
          ar_queue = ''Automated + Sampling Review'',
          ar_priority = ''MEDIUM'',
          ar_rationale =
            ''Moderate harm risk. Apply soft interventions to reduce potential spread.'',
          ar_recommended_steps =
            [''Append context/fact-check label if available'',
             ''Reduce algorithmic amplification'',
             ''Flag for random sampling review'',
             ''Monitor user reports''] \<rparr>
   \<and> spec_decide (calculate_harm_score (no_signals\<lparr>tox_score := Some 1, emotion_score := Some 0.2\<rparr>))
      = (''Monitor'', ''LOW'', ''Automated Monitoring'')"
  by code_simp

text \<open>
  Claim C3, amended. The decision is a first-match table: a set child-escalation flag
  gives ESCALATE IMMEDIATELY, CRITICAL, Child Safety; otherwise a score up to 39 gives
  Monitor, LOW, Automated Monitoring, a score from 40 to 69 gives Add Warning / Reduce
  Reach, MEDIUM, Automated + Sampling Review, and a score from 70 gives Human Review
  Required, HIGH, Priority Review Queue. The whole result, rationale and steps included,
  is fixed by the flag and the band alone.
\<close>

theorem C3_decision_table:
  "ar_action (recommend_action r sg) =
     (if child_escalation r then ''ESCALATE IMMEDIATELY''
      else if risk_score r \<le> 39 then ''Monitor''
      else if risk_score r \<le> 69 then ''Add Warning / Reduce Reach''
      else ''Human Review Required'')
   \<and> ar_priority (recommend_action r sg) =
     (if child_escalation r then ''CRITICAL''
      else if risk_score r \<le> 39 then ''LOW''
      else if risk_score r \<le> 69 then ''MEDIUM''
      else ''HIGH'')
   \<and> ar_queue (recommend_action r sg) =
     (if child_escalation r then ''Child Safety''
      else if risk_score r \<le> 39 then ''Automated Monitoring''
      else if risk_score r \<le> 69 then ''Automated + Sampling Review''
      else ''Priority Review Queue'')
   \<and> recommend_action r sg =
       recommend_action
         (probe (child_escalation r)
            (if risk_score r \<le> 39 then 0 else if risk_score r \<le> 69 then 40 else 70))
         no_signals"
  by (simp add: recommend_action_def probe_def)

section \<open>The weighted base score\<close>

text \<open>
  Claim C4, as stated, fails on \<^verbatim>\<open>core/scoring.py\<close>, the module the API server
  imports: with child-safety score 1 and nothing else, its scaled base score is 10, not
  the 35 of the specified weighting, and 10 is the risk score returned.
\<close>

theorem C4_counterexample:
  "scoring_base_score (no_signals\<lparr>child_score := Some 1\<rparr>) * 100
     \<noteq> spec_base_score (no_signals\<lparr>child_score := Some 1\<rparr>)
   \<and> risk_score (calculate_harm_score (no_signals\<lparr>child_score := Some 1\<rparr>)) = 10"
  by (simp add: scoring_base_score_def spec_base_score_def no_signals_def dict_get_def
      calculate_harm_score_def scoring_calculate_improved_harm_score_def
      scoring_overridden_score_def severe_count_def py_round_def Let_def)

text \<open>
  Claim C4, amended. The scaled base score of \<^verbatim>\<open>core/signals/improved_scoring.py\<close> is the
  specified weighted sum (0.35 child-safety, 0.30 toxicity, 0.20 emotion, 0.10
  call-to-action, 0.05 context); that of \<^verbatim>\<open>core/scoring.py\<close> weighs toxicity 0.40, emotion
  0.25, call-to-action 0.15, context 0.10 and child-safety 0.10. Both weightings sum to 1,
  and for scores in \<open>[0, 1]\<close> both scaled sums lie between 0 and 100.
\<close>

theorem C4_base_score_weights:
  "improved_scoring_base_score s * 100 = spec_base_score s
   \<and> scoring_base_score s * 100 =
       100 * (0.40 * dict_get (tox_score s) 0 + 0.25 * dict_get (emotion_score s) 0
              + 0.15 * dict_get (cta_score s) 0 + 0.10 * dict_get (context_score s) 0
              + 0.10 * dict_get (child_score s) 0)
   \<and> (0.35 + 0.30 + 0.20 + 0.10 + 0.05 = (1::rat))
   \<and> (0.40 + 0.25 + 0.15 + 0.10 + 0.10 = (1::rat))
   \<and> (scores_in_unit s \<longrightarrow>
        0 \<le> improved_scoring_base_score s * 100 \<and> improved_scoring_base_score s * 100 \<le> 100
        \<and> 0 \<le> scoring_base_score s * 100 \<and> scoring_base_score s * 100 \<le> 100)"
proof -
  have 1: "improved_scoring_base_score s * 100 = spec_base_score s"
    by (simp add: improved_scoring_base_score_def spec_base_score_def Let_def algebra_simps)
  have 2: "scoring_base_score s * 100 =
       100 * (0.40 * dict_get (tox_score s) 0 + 0.25 * dict_get (emotion_score s) 0
              + 0.15 * dict_get (cta_score s) 0 + 0.10 * dict_get (context_score s) 0
              + 0.10 * dict_get (child_score s) 0)"
    by (simp add: scoring_base_score_def Let_def algebra_simps)
  show ?thesis
    using 1 2 scoring_base_range [of s] improved_scoring_base_range [of s] by simp
qed

theorem C4_base_score_weights_witness:
  "scores_in_unit in_range_signals
   \<and> 0 \<le> improved_scoring_base_score in_range_signals * 100
   \<and> improved_scoring_base_score in_range_signals * 100 \<le> 100
   \<and> 0 \<le> scoring_base_score in_range_signals * 100
   \<and> scoring_base_score in_range_signals * 100 \<le> 100"
proof -
  have h: "scores_in_unit in_range_signals"
    by (simp add: scores_in_unit_def in_range_signals_def no_signals_def dict_get_def)
  from C4_base_score_weights [of in_range_signals] h show ?thesis by blast
qed

section \<open>Scores outside the unit interval\<close>





section \<open>Raising one score\<close>

text \<open>
  Claim C9. In \<^verbatim>\<open>core/signals/improved_scoring.py\<close>, with the child flag set and one
  exploitation match, raising the child-safety score from 0.5 to 0.7 and holding every
  other input fixed lowers the risk score from 85 to 80: the branch for a flagged score
  above 0.6 (floor 80) is tried before the branch for a flagged exploitation match
  (floor 85).
\<close>

theorem C9_child_score_raise_lowers_risk:
  "risk_score (improved_scoring_calculate_improved_harm_score
       (no_signals\<lparr>child_flag := Some True, child_exploitation_matches := Some 1,
                    child_score := Some 0.5\<rparr>)) = 85
   \<and> risk_score (improved_scoring_calculate_improved_harm_score
       (no_signals\<lparr>child_flag := Some True, child_exploitation_matches := Some 1,
                    child_score := Some 0.7\<rparr>)) = 80
   \<and> scores_raised
       (no_signals\<lparr>child_flag := Some True, child_exploitation_matches := Some 1,
                    child_score := Some 0.5\<rparr>)
       (no_signals\<lparr>child_flag := Some True, child_exploitation_matches := Some 1,
                    child_score := Some 0.7\<rparr>)"
  by (simp add: improved_scoring_calculate_improved_harm_score_def
      improved_scoring_overridden_score_def improved_scoring_child_overrides_def
      improved_scoring_base_score_def no_signals_def dict_get_def severe_count_def
      py_round_of_int [of 85, simplified] py_round_of_int [of 80, simplified] scores_raised_def)

section \<open>The moderation queue\<close>

text \<open>
  Claim C6, as stated, fails: enqueueing the same content item twice in the same queue
  leaves two rows for it, with ids 1 and 2.
\<close>

theorem C6_counterexample:
  "map q_id (entries_for
      (add_to_queue (add_to_queue empty_database ''2026-02-07 10:00:00'' ''c1'' ''Q'' ''HIGH'')
         ''2026-02-07 10:00:05'' ''c1'' ''Q'' ''HIGH'') ''c1'' ''Q'') = [1, 2]"
  by (simp add: entries_for_def add_to_queue_def empty_database_def)

text \<open>
  Claim C6, amended. Every call of \<^verbatim>\<open>add_to_queue\<close> appends one new pending row and
  leaves the existing rows as they are, so the number of rows of that content item in
  that queue grows by one; when no stored id exceeds the counter, the new id is fresh.
\<close>

theorem C6_add_to_queue_appends:
  "moderation_queue (add_to_queue db now content_id queue_name prio) =
     moderation_queue db @
       [\<lparr> q_id = moderation_queue_seq db + 1, q_content_id = content_id,
          q_queue_name = queue_name, q_priority = prio, q_assigned_to = None,
          q_status = ''pending'', q_created_at = now, q_reviewed_at = None,
          q_reviewer_decision = None, q_reviewer_notes = None \<rparr>]
   \<and> length (entries_for (add_to_queue db now content_id queue_name prio) content_id queue_name)
       = Suc (length (entries_for db content_id queue_name))
   \<and> ((\<forall>q \<in> set (moderation_queue db). q_id q \<le> moderation_queue_seq db) \<longrightarrow>
        (\<forall>q \<in> set (moderation_queue db). q_id q \<noteq> moderation_queue_seq db + 1)
        \<and> (\<forall>q \<in> set (moderation_queue (add_to_queue db now content_id queue_name prio)).
              q_id q \<le> moderation_queue_seq (add_to_queue db now content_id queue_name prio)))"
  by (auto simp: add_to_queue_def entries_for_def)

theorem C6_add_to_queue_appends_witness:
  "list_all (\<lambda>q. q_id q \<le> moderation_queue_seq one_pending) (moderation_queue one_pending)
   \<and> length (entries_for (add_to_queue one_pending ''2026-02-07 10:00:05'' ''c1''
         ''Priority Review Queue'' ''HIGH'') ''c1'' ''Priority Review Queue'') = 2
   \<and> list_all (\<lambda>q. q_id q \<noteq> 2) (moderation_queue one_pending)"
  using C6_add_to_queue_appends [of one_pending "''2026-02-07 10:00:05''" "''c1''"
      "''Priority Review Queue''" "''HIGH''"]
  by (simp add: one_pending_def add_to_queue_def empty_database_def entries_for_def)

text \<open>
  Claim C7, as stated, fails: after Alice reviewed entry 1 with decision remove, Bob's
  review with decision approve also succeeds, and the stored reviewer and decision are
  Bob's.
\<close>

theorem C7_counterexample:
  "map rr_status
     [snd (review_queue_item one_pending ''2026-02-07 11:00:00'' 1 ''remove'' ''alice'' None),
      snd (review_queue_item
             (fst (review_queue_item one_pending ''2026-02-07 11:00:00'' 1 ''remove'' ''alice'' None))
             ''2026-02-07 12:00:00'' 1 ''approve'' ''bob'' None)]
     = [''success'', ''success'']
   \<and> map (\<lambda>q. (q_status q, q_assigned_to q, q_reviewer_decision q))
       (moderation_queue
         (fst (review_queue_item
             (fst (review_queue_item one_pending ''2026-02-07 11:00:00'' 1 ''remove'' ''alice'' None))
             ''2026-02-07 12:00:00'' 1 ''approve'' ''bob'' None)))
     = [(''reviewed'', Some ''bob'', Some ''approve'')]"
  by (simp add: review_queue_item_def update_queue_status_def one_pending_def add_to_queue_def
      empty_database_def coalesce_def)

text \<open>
  Claim C7, amended. A review always succeeds. It sets the entry's status to reviewed and
  its review time to the current time, whatever the status was, stores the given reviewer
  and decision, and replaces the notes only when notes are given. A second review
  overwrites the first: its reviewer, decision and time are the ones stored.
\<close>

theorem C7_review_overwrites:
  "rr_status (snd (review_queue_item db now queue_id decision reviewer rnotes)) = ''success''
   \<and> moderation_queue (fst (review_queue_item db now queue_id decision reviewer rnotes)) =
       map (\<lambda>q. if q_id q = queue_id
                 then q \<lparr> q_status := ''reviewed'', q_reviewed_at := Some now,
                          q_assigned_to := Some reviewer,
                          q_reviewer_decision := Some decision,
                          q_reviewer_notes := coalesce rnotes (q_reviewer_notes q) \<rparr>
                 else q)
         (moderation_queue db)
   \<and> moderation_queue
        (fst (review_queue_item (fst (review_queue_item db now queue_id decision reviewer rnotes))
                now' queue_id decision' reviewer' rnotes')) =
       map (\<lambda>q. if q_id q = queue_id
                 then q \<lparr> q_status := ''reviewed'', q_reviewed_at := Some now',
                          q_assigned_to := Some reviewer',
                          q_reviewer_decision := Some decision',
                          q_reviewer_notes :=
                            coalesce rnotes' (coalesce rnotes (q_reviewer_notes q)) \<rparr>
                 else q)
         (moderation_queue db)"
  by (cases rnotes; cases rnotes')
     (simp_all add: review_queue_item_def update_queue_status_def coalesce_def comp_def)

section \<open>Ordered queue retrieval\<close>

lemma joined_set:
  "set (concat (map (\<lambda>q. map (\<lambda>c. (q, c)) (filter (\<lambda>c. q_content_id q = c_content_id c) cs)) qs))
     = {(q, c). q \<in> set qs \<and> c \<in> set cs \<and> q_content_id q = c_content_id c}"
  by auto

lemma sorted_pairs_nth:
  fixes ks :: "(nat \<times> string) list"
  assumes "sorted ks" "i < j" "j < length ks"
  shows "fst (ks ! i) \<le> fst (ks ! j) \<and> (fst (ks ! i) = fst (ks ! j) \<longrightarrow> snd (ks ! i) \<le> snd (ks ! j))"
proof -
  have "ks ! i \<le> ks ! j" using assms by (simp add: sorted_nth_mono)
  then show ?thesis by (cases "ks ! i"; cases "ks ! j") (auto simp: less_eq_prod_def)
qed

text \<open>
  Claim C8. For every queue name, status and stored rows, \<^verbatim>\<open>get_queue_items\<close> returns
  the entries with that status (and that queue name, when one is given) that have an
  analysis row, sorted by priority rank ascending (CRITICAL 1, HIGH 2, MEDIUM 3, LOW 4)
  and, within equal rank, by creation time ascending.
\<close>

theorem C8_queue_items_ordered:
  "sorted (map order_key (get_queue_items db queue_name status))
   \<and> set (get_queue_items db queue_name status) =
       {(q, c). q \<in> set (moderation_queue db) \<and> c \<in> set (content_analysis db)
                \<and> q_content_id q = c_content_id c \<and> q_status q = status
                \<and> (truthy queue_name \<longrightarrow> q_queue_name q = the queue_name)}
   \<and> (\<forall>i j. i < j \<and> j < length (get_queue_items db queue_name status) \<longrightarrow>
         (let a = fst (get_queue_items db queue_name status ! i);
              b = fst (get_queue_items db queue_name status ! j)
          in priority_rank (q_priority a) \<le> priority_rank (q_priority b)
             \<and> (priority_rank (q_priority a) = priority_rank (q_priority b)
                  \<longrightarrow> q_created_at a \<le> q_created_at b)))
   \<and> priority_rank ''CRITICAL'' = 1 \<and> priority_rank ''HIGH'' = 2
   \<and> priority_rank ''MEDIUM'' = 3 \<and> priority_rank ''LOW'' = 4"
proof -
  let ?res = "get_queue_items db queue_name status"
  have s: "sorted (map order_key ?res)"
    by (simp add: get_queue_items_def Let_def)
  have m: "set ?res =
       {(q, c). q \<in> set (moderation_queue db) \<and> c \<in> set (content_analysis db)
                \<and> q_content_id q = c_content_id c \<and> q_status q = status
                \<and> (truthy queue_name \<longrightarrow> q_queue_name q = the queue_name)}"
    unfolding get_queue_items_def Let_def by (auto simp: joined_set)
  have o: "\<forall>i j. i < j \<and> j < length ?res \<longrightarrow>
         (let a = fst (?res ! i); b = fst (?res ! j)
          in priority_rank (q_priority a) \<le> priority_rank (q_priority b)
             \<and> (priority_rank (q_priority a) = priority_rank (q_priority b)
                  \<longrightarrow> q_created_at a \<le> q_created_at b))"
  proof (intro allI impI)
    fix i j assume ij: "i < j \<and> j < length ?res"
    then have "i < j" "j < length (map order_key ?res)" by simp_all
    from sorted_pairs_nth [OF s this] ij
    show "let a = fst (?res ! i); b = fst (?res ! j)
          in priority_rank (q_priority a) \<le> priority_rank (q_priority b)
             \<and> (priority_rank (q_priority a) = priority_rank (q_priority b)
                  \<longrightarrow> q_created_at a \<le> q_created_at b)"
      by (simp add: order_key_def Let_def)
  qed
  have r: "priority_rank ''CRITICAL'' = 1 \<and> priority_rank ''HIGH'' = 2
   \<and> priority_rank ''MEDIUM'' = 3 \<and> priority_rank ''LOW'' = 4"
    by (simp add: priority_rank_def)
  show ?thesis using s m o r by blast
qed

lemma three_queued_items:
  "map (\<lambda>(q, c). (q_id q, q_priority q, c_risk_score c))
     (get_queue_items three_queued (Some ''Q'') ''pending'')
   = [(2, ''CRITICAL'', 96), (3, ''HIGH'', 80), (1, ''MEDIUM'', 60)]"
  by (simp add: get_queue_items_def three_queued_def add_to_queue_def empty_database_def
      truthy_def order_key_def priority_rank_def)

theorem C8_queue_items_ordered_witness:
  "(0::nat) < 1 \<and> 1 < length (get_queue_items three_queued (Some ''Q'') ''pending'')
   \<and> truthy (Some ''Q'')
   \<and> priority_rank (q_priority (fst (get_queue_items three_queued (Some ''Q'') ''pending'' ! 0)))
       \<le> priority_rank (q_priority (fst (get_queue_items three_queued (Some ''Q'') ''pending'' ! 1)))
   \<and> list_all (\<lambda>qc. q_queue_name (fst qc) = ''Q'')
       (get_queue_items three_queued (Some ''Q'') ''pending'')"
proof -
  have len: "length (get_queue_items three_queued (Some ''Q'') ''pending'') = 3"
    using arg_cong [OF three_queued_items, of length] by simp
  have t: "truthy (Some ''Q'')" by (simp add: truthy_def)
  note c8 = C8_queue_items_ordered [of three_queued "Some ''Q''" "''pending''"]
  from c8 have "\<forall>i j. i < j \<and> j < length (get_queue_items three_queued (Some ''Q'') ''pending'') \<longrightarrow>
         (let a = fst (get_queue_items three_queued (Some ''Q'') ''pending'' ! i);
              b = fst (get_queue_items three_queued (Some ''Q'') ''pending'' ! j)
          in priority_rank (q_priority a) \<le> priority_rank (q_priority b)
             \<and> (priority_rank (q_priority a) = priority_rank (q_priority b)
                  \<longrightarrow> q_created_at a \<le> q_created_at b))"
    by blast
  then have o: "priority_rank (q_priority (fst (get_queue_items three_queued (Some ''Q'') ''pending'' ! 0)))
       \<le> priority_rank (q_priority (fst (get_queue_items three_queued (Some ''Q'') ''pending'' ! 1)))"
    using len by (auto simp: Let_def)
  from c8 t have m: "\<forall>qc \<in> set (get_queue_items three_queued (Some ''Q'') ''pending'').
         q_queue_name (fst qc) = ''Q''"
    by auto
  show ?thesis using len t o m by (simp add: list_all_iff)
qed

section \<open>Escalation status updates\<close>

text \<open>
  Claim C10. \<^verbatim>\<open>update_escalation_status\<close> always stores the new status and update time
  on the row with the given id. It sets \<^verbatim>\<open>responded_at\<close> exactly when the new status is
  responded and no resolution notes are passed: with status responded and notes passed,
  \<^verbatim>\<open>responded_at\<close> keeps its old value. The notes themselves are stored only when the new
  status is resolved.
\<close>

theorem C10_responded_at_rule:
  "i < length (escalations db) \<Longrightarrow> e_id (escalations db ! i) = escalation_id \<Longrightarrow>
   (let e = escalations db ! i;
        e' = escalations
               (update_escalation_status db now escalation_id status assigned_to resolution_notes) ! i
    in e_status e' = status \<and> e_updated_at e' = now
       \<and> e_responded_at e' =
           (if status = ''responded'' \<and> resolution_notes = None then Some now
            else e_responded_at e)
       \<and> (status = ''responded'' \<and> resolution_notes \<noteq> None \<longrightarrow>
            e_responded_at e' = e_responded_at e)
       \<and> e_resolution_notes e' =
           (if status = ''resolved'' \<and> truthy resolution_notes then resolution_notes
            else e_resolution_notes e)
       \<and> (e_resolution_notes e' \<noteq> e_resolution_notes e \<longrightarrow> status = ''resolved''))"
  by (simp add: update_escalation_status_def escalation_update_def Let_def)

theorem C10_responded_at_rule_witness:
  "0 < length (escalations one_escalation) \<and> e_id (escalations one_escalation ! 0) = 1
   \<and> Some ''called the user'' \<noteq> (None :: string option)
   \<and> (let e' = escalations (update_escalation_status one_escalation ''2026-02-07 11:00:00'' 1
                   ''responded'' None (Some ''called the user'')) ! 0
      in e_status e' = ''responded'' \<and> e_updated_at e' = ''2026-02-07 11:00:00''
         \<and> e_responded_at e' = None \<and> e_resolution_notes e' = None)"
proof -
  have h1: "0 < length (escalations one_escalation)"
    and h2: "e_id (escalations one_escalation ! 0) = 1"
    by (simp_all add: one_escalation_def empty_database_def)
  have old: "e_responded_at (escalations one_escalation ! 0) = None"
    "e_resolution_notes (escalations one_escalation ! 0) = None"
    by (simp_all add: one_escalation_def empty_database_def)
  from C10_responded_at_rule [OF h1 h2, of "''2026-02-07 11:00:00''" "''responded''" None
      "Some ''called the user''"] old h1 h2
  show ?thesis by (simp add: Let_def)
qed

section \<open>The serialization does not depend on the order of the items\<close>






section \<open>The local hash chain\<close>







section \<open>Verification of an audit record\<close>

lemma verify_ignores_digest:
  "json_truthy payload \<Longrightarrow>
     executor_verify_audit_integrity H (Manager (manager_with data_hash payload)) ''c1''"
  by (simp add: executor_verify_audit_integrity_def verify_audit_integrity_def
      get_audit_record_def retrieve_from_ipfs_def manager_with_def Let_def)

text \<open>
  What \<^verbatim>\<open>verify\<close> does decide on: it is true only if the ledger is the contract-backed
  manager, the contract returns a record for the content id, and a non-empty payload is
  retrieved from IPFS under that record's IPFS hash. On the local hash chain, whose class
  has no such method, and without a ledger, it is false for every content id.
\<close>

lemma verify_only_if_retrievable:
  "(executor_verify_audit_integrity H blockchain content_id \<longrightarrow>
      (\<exists>m r d. blockchain = Manager m \<and> get_audit_record m content_id = Some r
                \<and> retrieve_from_ipfs m (rec_ipfs_hash r) = Some d \<and> json_truthy d))
   \<and> \<not> executor_verify_audit_integrity H (Simulator chain) content_id
   \<and> \<not> executor_verify_audit_integrity H NoLedger content_id"
  by (auto simp: executor_verify_audit_integrity_def verify_audit_integrity_def Let_def
      split: ledger.splits option.splits if_splits)

text \<open>
  Claim C1. \<^verbatim>\<open>verify\<close> must be true only if the digest recomputed over the stored
  payload reproduces the stored hash. \<^verbatim>\<open>BlockchainAuditManager.verify_audit_integrity\<close>
  computes that digest and never compares it: whatever the digest function, for the
  content id \<^verbatim>\<open>c1\<close> whose contract entry holds a data hash that is not the digest of the
  payload IPFS returns, it answers true.
\<close>

theorem C1_verify_accepts_mismatch:
  "executor_verify_audit_integrity H
       (Manager (manager_with (CHR ''x'' # hash_data H sample_payload) sample_payload)) ''c1''
   \<and> verify_audit_integrity H
       (manager_with (CHR ''x'' # hash_data H sample_payload) sample_payload) ''c1''
   \<and> \<not> digest_matches H
       (Manager (manager_with (CHR ''x'' # hash_data H sample_payload) sample_payload)) ''c1''"
proof -
  have t: "json_truthy sample_payload" by (simp add: sample_payload_def)
  have 1: "executor_verify_audit_integrity H
       (Manager (manager_with (CHR ''x'' # hash_data H sample_payload) sample_payload)) ''c1''"
    using t by (rule verify_ignores_digest)
  then have 2: "verify_audit_integrity H
       (manager_with (CHR ''x'' # hash_data H sample_payload) sample_payload) ''c1''"
    by (simp add: executor_verify_audit_integrity_def)
  have 3: "\<not> digest_matches H
       (Manager (manager_with (CHR ''x'' # hash_data H sample_payload) sample_payload)) ''c1''"
    by (simp add: digest_matches_def manager_with_def retrieve_from_ipfs_def)
  from 1 2 3 show ?thesis by (intro conjI)
qed

end
